theory Spec2Isabelle
  imports Complex_Main "HOL-Library.Sublist"
begin

section \<open>Values and exceptions\<close>

text \<open>
  The services exchange JSON-decoded Python values: the queue message, the bodies of the
  upstream HTTP responses and the \<open>meta_info\<close> column. A decoded object is a Python
  dict, kept here as an association list whose first binding of a key is the one in force.
\<close>

datatype json =
    JNull
  | JBool bool
  | JInt int
  | JFloat real
  | JString string
  | JArray "json list"
  | JObject "(string \<times> json) list"

text \<open>
  Python exceptions by class. The three plain \<open>Exception(...)\<close> objects raised by the
  gateways keep what their message is formatted from: \<open>Exception\<close> carries a fixed
  message, \<open>Status_error\<close> is "OpenAI API returned status code N" with the response text
  appended when the text is not empty, \<open>Format_error\<close> is "Unexpected response format
  from OpenAI API: data". All the others are the library's own classes.
\<close>

datatype exn =
    JSONDecodeError
  | UnicodeDecodeError
  | KeyError string
  | TypeError
  | IndexError
  | Exception string
  | Status_error int "string option"
  | Format_error json
  | AttributeError
  | ValueError
  | TransportError
  | AMQPConnectionError
  | OperationalError
  | IntegrityError
  | DataError
  | ProgrammingError
  | ValidationError

type_synonym 'a result = "exn + 'a"

definition bind :: "'a result \<Rightarrow> ('a \<Rightarrow> 'b result) \<Rightarrow> 'b result" where
  "bind m f = (case m of Inl e \<Rightarrow> Inl e | Inr x \<Rightarrow> f x)"

subsection \<open>Python operators on decoded values\<close>

text \<open>\<open>bool(v)\<close>, as \<open>not v\<close> and \<open>if v\<close> read it.\<close>

fun truthy :: "json \<Rightarrow> bool" where
  "truthy JNull = False"
| "truthy (JBool b) = b"
| "truthy (JInt i) = (i \<noteq> 0)"
| "truthy (JFloat r) = (r \<noteq> 0)"
| "truthy (JString s) = (s \<noteq> [])"
| "truthy (JArray xs) = (xs \<noteq> [])"
| "truthy (JObject kvs) = (kvs \<noteq> [])"

text \<open>
  \<open>key in v\<close> for a string key: dict membership, list membership, substring test on a
  string, TypeError on anything that is not a container.
\<close>

fun contains :: "string \<Rightarrow> json \<Rightarrow> bool result" where
  "contains k (JObject kvs) = Inr (k \<in> set (map fst kvs))"
| "contains k (JArray xs) = Inr (JString k \<in> set xs)"
| "contains k (JString s) = Inr (sublist k s)"
| "contains k _ = Inl TypeError"

text \<open>\<open>v[key]\<close> for a string key: only a dict accepts it.\<close>

fun getitem :: "json \<Rightarrow> string \<Rightarrow> json result" where
  "getitem (JObject kvs) k = (case map_of kvs k of None \<Rightarrow> Inl (KeyError k) | Some v \<Rightarrow> Inr v)"
| "getitem _ k = Inl TypeError"

text \<open>
  \<open>v[0]\<close>: the first element of a list, the first character of a string, KeyError on a
  decoded dict (its keys are strings), TypeError otherwise.
\<close>

fun getitem0 :: "json \<Rightarrow> json result" where
  "getitem0 (JArray xs) = (case xs of [] \<Rightarrow> Inl IndexError | x # _ \<Rightarrow> Inr x)"
| "getitem0 (JString s) = (case s of [] \<Rightarrow> Inl IndexError | c # _ \<Rightarrow> Inr (JString [c]))"
| "getitem0 (JObject kvs) = Inl (KeyError ''0'')"
| "getitem0 _ = Inl TypeError"

text \<open>\<open>len(v)\<close>.\<close>

fun len :: "json \<Rightarrow> nat result" where
  "len (JArray xs) = Inr (length xs)"
| "len (JString s) = Inr (length s)"
| "len (JObject kvs) = Inr (length kvs)"
| "len _ = Inl TypeError"

text \<open>\<open>v[:n]\<close>: lists and strings are sliced, nothing else is.\<close>

fun slice_to :: "nat \<Rightarrow> json \<Rightarrow> json result" where
  "slice_to n (JArray xs) = Inr (JArray (take n xs))"
| "slice_to n (JString s) = Inr (JString (take n s))"
| "slice_to n _ = Inl TypeError"

text \<open>\<open>sep.join(parts)\<close> on a list of strings.\<close>

fun join :: "string \<Rightarrow> string list \<Rightarrow> string" where
  "join sep [] = []"
| "join sep [x] = x"
| "join sep (x # y # ys) = x @ sep @ join sep (y # ys)"

definition nl :: string where
  "nl = [CHR 0x0A]"

section \<open>Configuration and the upstream HTTP capability\<close>

text \<open>
  \<open>app/core/config.py\<close>: the credential comes from the environment and may be absent;
  the embedding model and dimension are constants of the class.
\<close>

record settings =
  OPENAI_API_KEY :: "string option"
  EMBEDDING_MODEL :: string
  EMBEDDING_DIMENSION :: int

definition default_settings :: "string option \<Rightarrow> settings" where
  "default_settings key =
     \<lparr>OPENAI_API_KEY = key, EMBEDDING_MODEL = ''text-embedding-3-small'',
      EMBEDDING_DIMENSION = 1536\<rparr>"

text \<open>\<open>not settings.OPENAI_API_KEY\<close>: the key is None or the empty string.\<close>

definition no_api_key :: "settings \<Rightarrow> bool" where
  "no_api_key st = (case OPENAI_API_KEY st of None \<Rightarrow> True | Some k \<Rightarrow> k = [])"

text \<open>
  One \<open>client.post\<close>: the request the service builds, and what the call gives back.
  The remote service is a parameter of every gateway: a function from the request to either
  the exception \<open>httpx\<close> raises (timeout, connection failure) or the response, of which
  the code reads \<open>status_code\<close>, \<open>text\<close> (here \<open>response_text\<close>) and \<open>json()\<close>
  (which raises on a body that is not JSON).
\<close>

record request =
  url :: string
  authorization :: string
  content_type :: string
  payload :: json

record response =
  status_code :: int
  response_text :: string
  body_json :: "json result"

type_synonym upstream = "request \<Rightarrow> response result"

definition bearer :: "settings \<Rightarrow> string" where
  "bearer st = ''Bearer '' @ (case OPENAI_API_KEY st of None \<Rightarrow> ''None'' | Some k \<Rightarrow> k)"

definition status_error :: "response \<Rightarrow> exn" where
  "status_error r = Status_error (status_code r) (if response_text r \<noteq> [] then Some (response_text r) else None)"

section \<open>Generation gateway (\<open>app/services/llm_service.py\<close>)\<close>

definition system_prompt :: string where
  "system_prompt =
     ''You are an AI assistant that answers questions based on the provided context.'' @ nl @
     ''        If the answer cannot be found in the context, acknowledge that you don't know rather than making up information.'' @ nl @
     ''        Provide a clear, concise answer that directly addresses the question, citing relevant information from the context.''"

definition user_prompt :: "string \<Rightarrow> string list \<Rightarrow> string" where
  "user_prompt query context =
     ''Context information is below:'' @ nl @ nl @ join (nl @ nl) context @ nl @ nl @
     ''Question: '' @ query @ nl @ nl @ ''Answer:''"

text \<open>
  The request of lines 12 to 45. The function receives the caller's \<open>model\<close> argument, as
  the source function does; the payload names \<open>openai_model\<close>, a local constant.
\<close>

definition openai_model :: string where
  "openai_model = ''gpt-3.5-turbo''"

definition chat_request :: "settings \<Rightarrow> string \<Rightarrow> string list \<Rightarrow> string option \<Rightarrow> request" where
  "chat_request st query context model =
     \<lparr>url = ''https://api.openai.com/v1/chat/completions'',
      authorization = bearer st,
      content_type = ''application/json'',
      payload = JObject
        [(''model'', JString openai_model),
         (''messages'', JArray
            [JObject [(''role'', JString ''system''), (''content'', JString system_prompt)],
             JObject [(''role'', JString ''user''),
                      (''content'', JString (user_prompt query context))]])]\<rparr>"

text \<open>
  Lines 62 to 69: the format check is a short-circuit \<open>or\<close> of three tests, each of which
  may itself raise; the answer is read, sliced for the log line (which raises on a value
  that cannot be sliced) and returned as it is.
\<close>

definition read_answer :: "json \<Rightarrow> json result" where
  "read_answer data =
     bind (contains ''choices'' data) (\<lambda>has_choices.
       if \<not> has_choices then Inl (Format_error data)
       else bind (getitem data ''choices'') (\<lambda>choices.
         if \<not> truthy choices then Inl (Format_error data)
         else bind (getitem0 choices) (\<lambda>choice.
           bind (contains ''message'' choice) (\<lambda>has_message.
             if \<not> has_message then Inl (Format_error data)
             else bind (getitem choice ''message'') (\<lambda>message.
               bind (getitem message ''content'') (\<lambda>answer.
                 bind (slice_to 100 answer) (\<lambda>_. Inr answer)))))))"

text \<open>The body of the \<open>try\<close> block, lines 9 to 69.\<close>

definition generate_try ::
  "settings \<Rightarrow> upstream \<Rightarrow> string \<Rightarrow> string list \<Rightarrow> string option \<Rightarrow> json result" where
  "generate_try st post query context model =
     (if no_api_key st then Inl (Exception ''OpenAI API key is required but not provided'')
      else bind (post (chat_request st query context model)) (\<lambda>response.
        if status_code response \<noteq> 200 then Inl (status_error response)
        else bind (body_json response) read_answer))"

definition apology :: string where
  "apology = ''I encountered an issue when generating a response. However, I found relevant information that might help: '' @ nl @ nl"

definition cannot_process :: string where
  "cannot_process = ''I'm sorry, I encountered an issue while processing your query. Please try again later.''"

text \<open>The \<open>except Exception\<close> handler, lines 70 to 78.\<close>

definition degraded_answer :: "string list \<Rightarrow> json" where
  "degraded_answer context =
     (case context of [] \<Rightarrow> JString cannot_process | c # _ \<Rightarrow> JString (apology @ c))"

definition generate_rag_response ::
  "settings \<Rightarrow> upstream \<Rightarrow> string \<Rightarrow> string list \<Rightarrow> string option \<Rightarrow> json result" where
  "generate_rag_response st post query context model =
     (case generate_try st post query context model of
        Inr answer \<Rightarrow> Inr answer
      | Inl e \<Rightarrow> Inr (degraded_answer context))"

section \<open>Embedding gateway (\<open>get_embedding\<close> in \<open>app/services/embedding_service.py\<close>)\<close>

text \<open>
  \<open>get_embedding\<close> is the one function whose standard output is kept: each constructor
  is one of its \<open>print\<close> calls with the values it interpolates. The text to embed is
  a decoded value, since the worker passes \<open>message["content"]\<close> on unchecked.
\<close>

datatype log_line =
    Getting_embedding string json
  | Response_status int
  | Retrieved_dimensions nat
  | Dimension_warning nat int
  | Error_getting_embedding exn

definition embedding_request :: "settings \<Rightarrow> json \<Rightarrow> request" where
  "embedding_request st text_in =
     \<lparr>url = ''https://api.openai.com/v1/embeddings'',
      authorization = bearer st,
      content_type = ''application/json'',
      payload = JObject [(''model'', JString (EMBEDDING_MODEL st)), (''input'', text_in)]\<rparr>"

text \<open>Lines 45 to 49: the format check, then \<open>data["data"][0]["embedding"]\<close>.\<close>

definition read_embedding :: "json \<Rightarrow> json result" where
  "read_embedding data =
     bind (contains ''data'' data) (\<lambda>has_data.
       if \<not> has_data then Inl (Format_error data)
       else bind (getitem data ''data'') (\<lambda>items.
         if \<not> truthy items then Inl (Format_error data)
         else bind (getitem0 items) (\<lambda>first.
           bind (contains ''embedding'' first) (\<lambda>has_embedding.
             if \<not> has_embedding then Inl (Format_error data)
             else getitem first ''embedding''))))"

text \<open>
  The \<open>try\<close> block, lines 10 to 58, with the lines printed so far on every exit. The
  dimension check of lines 54 to 56 only prints.
\<close>

definition get_embedding_try :: "settings \<Rightarrow> upstream \<Rightarrow> json \<Rightarrow> log_line list \<times> json result" where
  "get_embedding_try st post text_in =
     (if no_api_key st
      then ([], Inl (Exception ''OpenAI API key is required for embeddings but not provided''))
      else case slice_to 50 text_in of
        Inl e \<Rightarrow> ([], Inl e)
      | Inr shown \<Rightarrow>
          (let out1 = [Getting_embedding (EMBEDDING_MODEL st) shown] in
           case post (embedding_request st text_in) of
             Inl e \<Rightarrow> (out1, Inl e)
           | Inr response \<Rightarrow>
               (let out2 = out1 @ [Response_status (status_code response)] in
                if status_code response \<noteq> 200 then (out2, Inl (status_error response))
                else case bind (body_json response) read_embedding of
                  Inl e \<Rightarrow> (out2, Inl e)
                | Inr embedding_vector \<Rightarrow>
                    (case len embedding_vector of
                       Inl e \<Rightarrow> (out2, Inl e)
                     | Inr dimensions \<Rightarrow>
                         (out2 @ [Retrieved_dimensions dimensions] @
                            (if int dimensions \<noteq> EMBEDDING_DIMENSION st
                             then [Dimension_warning dimensions (EMBEDDING_DIMENSION st)]
                             else []),
                          Inr embedding_vector)))))"

text \<open>The handler of lines 59 to 62 prints the error and raises it again.\<close>

definition get_embedding :: "settings \<Rightarrow> upstream \<Rightarrow> json \<Rightarrow> log_line list \<times> json result" where
  "get_embedding st post text_in =
     (case get_embedding_try st post text_in of
        (out, Inl e) \<Rightarrow> (out @ [Error_getting_embedding e], Inl e)
      | (out, Inr embedding_vector) \<Rightarrow> (out, Inr embedding_vector))"

section \<open>The record store and the vector store (\<open>app/core/database.py\<close>)\<close>

text \<open>
  Both tables live in one PostgreSQL database. The state below is what the services read
  and write: the rows of \<open>documents\<close> and \<open>embeddings\<close> in insertion order, the two
  identity sequences, the server clock behind \<open>created_at\<close>, and whether the server can be
  reached (when it cannot, every statement raises \<open>OperationalError\<close>). The primary key
  \<open>Document.id\<close> is the field \<open>doc_id\<close>, the vector column \<open>Embedding.embedding\<close> the
  field \<open>vec\<close>.
\<close>

type_synonym vector = "real list"

record document =
  doc_id :: int
  content :: string
  meta_info :: json
  created_at :: nat

record embedding =
  emb_id :: int
  document_id :: int
  vec :: vector
  emb_created_at :: nat

record database =
  documents :: "document list"
  embeddings :: "embedding list"
  documents_id_seq :: int
  embeddings_id_seq :: int
  clock :: nat
  online :: bool

text \<open>
  The columns \<open>id\<close> and \<open>document_id\<close> are PostgreSQL integers of 32 bits, the
  \<open>LIMIT\<close> count an integer of 64 bits, the components of a vector floats of 32 bits.
  A decimal text is read as a float of 32 bits by rounding to the nearest; it overflows
  from \<open>2^128 - 2^103\<close> on, half a step above the largest float. A vector has between 1
  and 16000 components.
\<close>

definition int4 :: "int \<Rightarrow> bool" where
  "int4 i = (- 2147483648 \<le> i \<and> i < 2147483648)"

definition int8 :: "int \<Rightarrow> bool" where
  "int8 i = (- 9223372036854775808 \<le> i \<and> i < 9223372036854775808)"

definition float4_overflow :: real where
  "float4_overflow = 2 ^ 128 - 2 ^ 103"

definition vector_max_dim :: nat where
  "vector_max_dim = 16000"

text \<open>
  The integer input of the server on a quoted text: blanks, an optional sign, decimal
  digits, blanks.
\<close>

definition is_space :: "char \<Rightarrow> bool" where
  "is_space c = (c \<in> set [CHR '' '', CHR 0x09, CHR 0x0A, CHR 0x0B, CHR 0x0C, CHR 0x0D])"

definition is_digit :: "char \<Rightarrow> bool" where
  "is_digit c = (48 \<le> (of_char c :: nat) \<and> (of_char c :: nat) \<le> 57)"

definition digits_value :: "string \<Rightarrow> int" where
  "digits_value ds = foldl (\<lambda>acc c. 10 * acc + (int (of_char c) - 48)) 0 ds"

definition unsigned_in :: "string \<Rightarrow> int option" where
  "unsigned_in ds = (if ds \<noteq> [] \<and> list_all is_digit ds then Some (digits_value ds) else None)"

definition integer_in :: "string \<Rightarrow> int option" where
  "integer_in s =
     (let t = rev (dropWhile is_space (rev (dropWhile is_space s))) in
      case t of
        [] \<Rightarrow> None
      | c # ds \<Rightarrow>
          if c = CHR ''-'' then map_option uminus (unsigned_in ds)
          else if c = CHR ''+'' then unsigned_in ds
          else unsigned_in t)"

text \<open>A number with a fraction is rounded to the nearest integer, a half away from zero.\<close>

definition round_half_away :: "real \<Rightarrow> int" where
  "round_half_away r = (if 0 \<le> r then \<lfloor>r + 1 / 2\<rfloor> else - \<lfloor>- r + 1 / 2\<rfloor>)"

text \<open>
  The first parameter of the \<open>INSERT\<close>, as the driver sends each Python value and the
  server reads it for the integer column: an integer as it is, a float rounded, a string
  through the integer input, \<open>None\<close> as NULL (the \<open>None\<close> of the result). Booleans,
  lists and dicts have no integer reading; a string holding a NUL character is refused
  by the driver.
\<close>

fun document_id_param :: "json \<Rightarrow> int option result" where
  "document_id_param JNull = Inr None"
| "document_id_param (JInt i) = (if int4 i then Inr (Some i) else Inl DataError)"
| "document_id_param (JFloat r) =
     (if int4 (round_half_away r) then Inr (Some (round_half_away r)) else Inl DataError)"
| "document_id_param (JString s) =
     (if CHR 0x00 \<in> set s then Inl ValueError
      else case integer_in s of
        None \<Rightarrow> Inl DataError
      | Some i \<Rightarrow> if int4 i then Inr (Some i) else Inl DataError)"
| "document_id_param (JBool b) = Inl ProgrammingError"
| "document_id_param (JArray xs) = Inl (if xs = [] then DataError else ProgrammingError)"
| "document_id_param (JObject kvs) = Inl ProgrammingError"

text \<open>
  The \<open>::vector\<close> cast on the text that \<open>json.dumps\<close> gives: an array of 1 to 16000
  numbers, none of which overflows. The components are kept as the reals they denote;
  their rounding to floats is not modelled. The sources do not declare the dimension of
  the vector column, so a vector of every dimension in range is stored.
\<close>

fun number :: "json \<Rightarrow> real option" where
  "number (JInt i) = Some (real_of_int i)"
| "number (JFloat r) = Some r"
| "number _ = None"

fun numbers :: "json list \<Rightarrow> vector option" where
  "numbers [] = Some []"
| "numbers (x # xs) =
     (case number x of
        None \<Rightarrow> None
      | Some r \<Rightarrow>
          if \<bar>r\<bar> < float4_overflow then map_option (\<lambda>rs. r # rs) (numbers xs) else None)"

fun as_vector :: "json \<Rightarrow> vector option" where
  "as_vector (JArray xs) =
     (if xs = [] \<or> vector_max_dim < length xs then None else numbers xs)"
| "as_vector _ = None"

text \<open>
  The \<open>INSERT INTO embeddings (document_id, embedding) VALUES (%s, %s::vector)\<close> of
  \<open>save_embedding\<close> followed by \<open>db.commit()\<close>. A statement whose parameters cannot be
  read fails before a row is formed. Forming the row takes the next value of the identity
  sequence, which no rollback gives back; the row is then refused when \<open>document_id\<close> is
  NULL or names no document (the foreign key), and appended otherwise.
\<close>

definition insert_embedding :: "database \<Rightarrow> json \<Rightarrow> json \<Rightarrow> database \<times> unit result" where
  "insert_embedding db document_id_in embedding_vector =
     (if \<not> online db then (db, Inl OperationalError)
      else case document_id_param document_id_in of
        Inl e \<Rightarrow> (db, Inl e)
      | Inr param \<Rightarrow>
          (case as_vector embedding_vector of
             None \<Rightarrow> (db, Inl DataError)
           | Some v \<Rightarrow>
               if \<not> int4 (embeddings_id_seq db) then (db, Inl DataError)
               else
                 (let taken = db\<lparr>embeddings_id_seq := embeddings_id_seq db + 1\<rparr> in
                  case param of
                    None \<Rightarrow> (taken, Inl IntegrityError)
                  | Some i \<Rightarrow>
                      if i \<in> set (map doc_id (documents db))
                      then (taken\<lparr>embeddings := embeddings db @
                                    [\<lparr>emb_id = embeddings_id_seq db, document_id = i, vec = v,
                                      emb_created_at = clock db\<rparr>]\<rparr>,
                            Inr ())
                      else (taken, Inl IntegrityError))))"

text \<open>
  \<open>save_embedding\<close>, lines 65 to 87: \<open>len(embedding_vector)\<close> comes before the statement;
  on any exception the session is rolled back and the exception raised again.
\<close>

definition save_embedding :: "database \<Rightarrow> json \<Rightarrow> json \<Rightarrow> database \<times> unit result" where
  "save_embedding db document_id_in embedding_vector =
     (case len embedding_vector of
        Inl e \<Rightarrow> (db, Inl e)
      | Inr dimensions \<Rightarrow> insert_embedding db document_id_in embedding_vector)"

section \<open>Embedding worker (\<open>worker/worker.py\<close>)\<close>

text \<open>
  \<open>process_document\<close>, lines 24 to 50: both handlers print and raise again, so the
  function fails exactly when the gateway call, \<open>len\<close> or the save fails.
\<close>

definition process_document ::
  "settings \<Rightarrow> upstream \<Rightarrow> database \<Rightarrow> json \<Rightarrow> json \<Rightarrow> json \<Rightarrow> database \<times> unit result" where
  "process_document st post db document_id_in content_in metadata =
     (case snd (get_embedding st post content_in) of
        Inl e \<Rightarrow> (db, Inl e)
      | Inr embedding_vector \<Rightarrow>
          (case len embedding_vector of
             Inl e \<Rightarrow> (db, Inl e)
           | Inr dimensions \<Rightarrow> save_embedding db document_id_in embedding_vector))"

text \<open>\<open>message.get(key, default)\<close>: a method of dicts only.\<close>

fun dict_get :: "json \<Rightarrow> string \<Rightarrow> json \<Rightarrow> json result" where
  "dict_get (JObject kvs) k d = Inr (case map_of kvs k of None \<Rightarrow> d | Some v \<Rightarrow> v)"
| "dict_get _ k d = Inl AttributeError"

text \<open>
  The channel is the list of acknowledgements sent on it, each with its delivery tag;
  \<open>Basic_nack tag requeue\<close> carries the redelivery flag.
\<close>

datatype channel_op = Basic_ack nat | Basic_nack nat bool

text \<open>
  The two \<open>except\<close> clauses of \<open>callback\<close>, lines 70 to 78. Python picks the clause by
  the class of the exception, wherever in the \<open>try\<close> block it was raised.
\<close>

definition on_exception :: "nat \<Rightarrow> exn \<Rightarrow> channel_op" where
  "on_exception delivery_tag e =
     (if e = JSONDecodeError then Basic_nack delivery_tag False
      else Basic_nack delivery_tag True)"

text \<open>Lines 56 to 59: the message is decoded and its fields are read.\<close>

definition parse_message :: "(string \<Rightarrow> json result) \<Rightarrow> string \<Rightarrow> (json \<times> json \<times> json) result" where
  "parse_message loads body =
     bind (loads body) (\<lambda>message.
       bind (getitem message ''document_id'') (\<lambda>document_id_in.
         bind (getitem message ''content'') (\<lambda>content_in.
           bind (dict_get message ''metadata'' (JObject [])) (\<lambda>metadata.
             Inr (document_id_in, content_in, metadata)))))"

text \<open>
  \<open>callback\<close>, lines 53 to 78. \<open>json.loads\<close> is a parameter: it maps the body to the
  decoded value or to the exception it raises. The whole of lines 56 to 68 is one
  \<open>try\<close> block, so an exception of \<open>process_document\<close> meets the same two clauses as
  one of the parse.
\<close>

definition callback ::
  "(string \<Rightarrow> json result) \<Rightarrow> settings \<Rightarrow> upstream \<Rightarrow> database \<Rightarrow> channel_op list \<Rightarrow> nat \<Rightarrow> string
     \<Rightarrow> database \<times> channel_op list" where
  "callback loads st post db ch delivery_tag body =
     (case parse_message loads body of
        Inl e \<Rightarrow> (db, ch @ [on_exception delivery_tag e])
      | Inr (document_id_in, content_in, metadata) \<Rightarrow>
          (case process_document st post db document_id_in content_in metadata of
             (db', Inl e) \<Rightarrow> (db', ch @ [on_exception delivery_tag e])
           | (db', Inr _) \<Rightarrow> (db', ch @ [Basic_ack delivery_tag])))"

section \<open>Similarity search (\<open>search_similar_documents\<close>)\<close>

text \<open>
  One row of the result set, a dict keyed by the five selected columns; the column
  \<open>id\<close> is the field \<open>sd_id\<close>.
\<close>

record similar_document =
  sd_id :: int
  sd_content :: string
  sd_meta_info :: json
  sd_created_at :: nat
  similarity :: real

text \<open>
  The operator \<open><=>\<close> belongs to the store: it is a parameter, applied as
  \<open>e.embedding <=> query\<close>, giving the cosine distance or the error the store raises (as
  it does for vectors of different dimensions). Its arithmetic is read in \<open>real\<close>;
  the NaN that the store gives at a zero vector, where the cosine is undefined, has no
  counterpart here.
\<close>

type_synonym distance = "vector \<Rightarrow> vector \<Rightarrow> real result"

text \<open>\<open>FROM embeddings e JOIN documents d ON e.document_id = d.id\<close>.\<close>

definition joined :: "database \<Rightarrow> (embedding \<times> document) list" where
  "joined db = [(e, d). e \<leftarrow> embeddings db, d \<leftarrow> documents db, document_id e = doc_id d]"

text \<open>The select list, \<open>1 - (e.embedding <=> %s::vector) AS similarity\<close> as its last column.\<close>

fun select_rows :: "distance \<Rightarrow> vector \<Rightarrow> (embedding \<times> document) list \<Rightarrow> similar_document list result" where
  "select_rows cos_dist q [] = Inr []"
| "select_rows cos_dist q ((e, d) # rest) =
     bind (cos_dist (vec e) q) (\<lambda>dst.
       bind (select_rows cos_dist q rest) (\<lambda>rows.
         Inr (\<lparr>sd_id = doc_id d, sd_content = content d, sd_meta_info = meta_info d,
               sd_created_at = created_at d, similarity = 1 - dst\<rparr> # rows)))"

text \<open>
  \<open>ORDER BY similarity DESC\<close>: rows of equal similarity stay in the order of the join,
  one of the orders the store may choose.
\<close>

definition order_by_similarity_desc :: "similar_document list \<Rightarrow> similar_document list" where
  "order_by_similarity_desc rows = sort_key (\<lambda>r. - similarity r) rows"

text \<open>
  \<open>LIMIT %s\<close> with \<open>top_k\<close>: \<open>None\<close> is sent as NULL, which is no limit; a count
  that is negative or does not fit 64 bits is an error of the statement.
\<close>

definition limit :: "int option \<Rightarrow> 'a list \<Rightarrow> 'a list result" where
  "limit top_k rows =
     (case top_k of
        None \<Rightarrow> Inr rows
      | Some k \<Rightarrow> if k < 0 \<or> \<not> int8 k then Inl DataError else Inr (take (nat k) rows))"

text \<open>
  \<open>search_similar_documents\<close>, lines 90 to 138: the statement is run and each row is
  returned as a dict of its columns; the handler prints and raises again.
\<close>

definition search_similar_documents ::
  "distance \<Rightarrow> database \<Rightarrow> json \<Rightarrow> int option \<Rightarrow> similar_document list result" where
  "search_similar_documents cos_dist db query_embedding top_k =
     (if \<not> online db then Inl OperationalError
      else case as_vector query_embedding of
        None \<Rightarrow> Inl DataError
      | Some q \<Rightarrow>
          bind (select_rows cos_dist q (joined db)) (\<lambda>rows.
            limit top_k (order_by_similarity_desc rows)))"

section \<open>Ingestion queue (\<open>app/services/queue_service.py\<close>)\<close>

text \<open>
  The broker: whether a connection can be opened, and the bodies held by the durable
  queue, oldest first.
\<close>

record broker =
  reachable :: bool
  queue :: "string list"

text \<open>
  \<open>publish_document\<close>, lines 21 to 49. \<open>get_connection()\<close> raises when the broker cannot
  be reached. \<open>json.dumps\<close> is a parameter.
\<close>

definition publish_document ::
  "(json \<Rightarrow> string) \<Rightarrow> broker \<Rightarrow> int \<Rightarrow> string \<Rightarrow> json \<Rightarrow> broker \<times> unit result" where
  "publish_document dumps br document_id_in content_in metadata_in =
     (let metadata = (if metadata_in = JNull then JObject [] else metadata_in) in
      if \<not> reachable br then (br, Inl AMQPConnectionError)
      else
        (let message = JObject [(''document_id'', JInt document_id_in),
                                (''content'', JString content_in),
                                (''metadata'', metadata)]
         in (br\<lparr>queue := queue br @ [dumps message]\<rparr>, Inr ())))"

section \<open>Document service (\<open>app/services/document_service.py\<close>)\<close>

record document_create =
  new_content :: string
  new_meta_info :: json

text \<open>
  A value of the JSONB column \<open>meta_info\<close> cannot hold a NUL character in a key or in a
  string.
\<close>

fun has_nul :: "json \<Rightarrow> bool" where
  "has_nul (JString s) = (CHR 0x00 \<in> set s)"
| "has_nul (JArray xs) = list_ex has_nul xs"
| "has_nul (JObject kvs) = list_ex (\<lambda>kv. CHR 0x00 \<in> set (fst kv) \<or> has_nul (snd kv)) kvs"
| "has_nul _ = False"

definition new_row :: "database \<Rightarrow> document_create \<Rightarrow> document" where
  "new_row db doc =
     \<lparr>doc_id = documents_id_seq db, content = new_content doc,
      meta_info = new_meta_info doc, created_at = clock db\<rparr>"

text \<open>
  Lines 8 to 15: \<open>db.add\<close>, \<open>db.commit\<close> and \<open>db.refresh\<close> insert the row and read back
  its identity and timestamp (\<open>new_row\<close> is the object after the refresh). The driver
  refuses a text with a NUL character, the server a JSONB value with one and an identity
  beyond 32 bits; nothing is committed then.
\<close>

definition insert_document :: "database \<Rightarrow> document_create \<Rightarrow> (database \<times> document) result" where
  "insert_document db doc =
     (if \<not> online db then Inl OperationalError
      else if CHR 0x00 \<in> set (new_content doc) then Inl ValueError
      else if has_nul (new_meta_info doc) then Inl DataError
      else if \<not> int4 (documents_id_seq db) then Inl DataError
      else Inr (db\<lparr>documents := documents db @ [new_row db doc],
                   documents_id_seq := documents_id_seq db + 1\<rparr>,
                new_row db doc))"

text \<open>
  \<open>create_document\<close>, lines 7 to 24: the call of \<open>publish_document\<close> stands after the
  commit, outside any \<open>try\<close>.
\<close>

definition create_document ::
  "(json \<Rightarrow> string) \<Rightarrow> database \<Rightarrow> broker \<Rightarrow> document_create
     \<Rightarrow> (database \<times> broker) \<times> document result" where
  "create_document dumps db br doc =
     (case insert_document db doc of
        Inl e \<Rightarrow> ((db, br), Inl e)
      | Inr (db', db_document) \<Rightarrow>
          (case publish_document dumps br (doc_id db_document) (content db_document)
                  (meta_info db_document) of
             (br', Inl e) \<Rightarrow> ((db', br'), Inl e)
           | (br', Inr _) \<Rightarrow> ((db', br'), Inr db_document)))"

text \<open>\<open>get_documents_by_ids\<close>: the rows of \<open>documents\<close> whose id is in the list.\<close>

definition get_documents_by_ids :: "database \<Rightarrow> int list \<Rightarrow> document list result" where
  "get_documents_by_ids db document_ids =
     (if \<not> online db then Inl OperationalError
      else Inr (filter (\<lambda>d. doc_id d \<in> set document_ids) (documents db)))"

section \<open>Endpoints (\<open>app/api/endpoints.py\<close>)\<close>

text \<open>\<open>HTTPException(status_code, detail)\<close>; the detail quotes the exception caught.\<close>

datatype http_error = HTTPException int exn

text \<open>\<open>POST /documents/\<close>, lines 16 to 25.\<close>

definition endpoint_create_document ::
  "(json \<Rightarrow> string) \<Rightarrow> database \<Rightarrow> broker \<Rightarrow> document_create
     \<Rightarrow> (database \<times> broker) \<times> (http_error + document)" where
  "endpoint_create_document dumps db br doc =
     (case create_document dumps db br doc of
        (s, Inl e) \<Rightarrow> (s, Inl (HTTPException 500 e))
      | (s, Inr d) \<Rightarrow> (s, Inr d))"

text \<open>The request and response models of \<open>app/api/models.py\<close>.\<close>

record query_request =
  q_query :: string
  q_top_k :: "int option"
  q_model :: "string option"

record rag_response =
  answer :: string
  sources :: "document list"

text \<open>
  The service functions the query endpoint calls, in the order it calls them, with their
  arguments.
\<close>

datatype call =
    Get_embedding json
  | Search_similar_documents json "int option"
  | Generate_rag_response string "string list" "string option"
  | Get_documents_by_ids "int list"

definition not_enough_information :: string where
  "not_enough_information = ''I don't have enough information to answer that question.''"

text \<open>
  \<open>POST /query/\<close>, lines 61 to 104. Every exception inside the \<open>try\<close> becomes a 500.
  \<open>RAGResponse\<close> takes a string for \<open>answer\<close> and rejects any other value.
\<close>

definition query_documents ::
  "distance \<Rightarrow> settings \<Rightarrow> upstream \<Rightarrow> database \<Rightarrow> query_request
     \<Rightarrow> call list \<times> (http_error + rag_response)" where
  "query_documents cos_dist st post db q =
     (let calls1 = [Get_embedding (JString (q_query q))] in
      case snd (get_embedding st post (JString (q_query q))) of
        Inl e \<Rightarrow> (calls1, Inl (HTTPException 500 e))
      | Inr query_embedding \<Rightarrow>
      (case len query_embedding of
        Inl e \<Rightarrow> (calls1, Inl (HTTPException 500 e))
      | Inr dimensions \<Rightarrow>
      (let calls2 = calls1 @ [Search_similar_documents query_embedding (q_top_k q)] in
       case search_similar_documents cos_dist db query_embedding (q_top_k q) of
        Inl e \<Rightarrow> (calls2, Inl (HTTPException 500 e))
      | Inr similar_docs \<Rightarrow>
      if similar_docs = []
      then (calls2, Inr \<lparr>answer = not_enough_information, sources = []\<rparr>)
      else
      (let contexts = map sd_content similar_docs;
           calls3 = calls2 @ [Generate_rag_response (q_query q) contexts (q_model q)] in
       case generate_rag_response st post (q_query q) contexts (q_model q) of
        Inl e \<Rightarrow> (calls3, Inl (HTTPException 500 e))
      | Inr generated \<Rightarrow>
      (let document_ids = map sd_id similar_docs;
           calls4 = calls3 @ [Get_documents_by_ids document_ids] in
       case get_documents_by_ids db document_ids of
        Inl e \<Rightarrow> (calls4, Inl (HTTPException 500 e))
      | Inr source_documents \<Rightarrow>
      (case generated of
        JString s \<Rightarrow> (calls4, Inr \<lparr>answer = s, sources = source_documents\<rparr>)
      | _ \<Rightarrow> (calls4, Inl (HTTPException 500 ValidationError))))))))"

section \<open>Example inputs\<close>

definition example_settings :: settings where
  "example_settings = default_settings (Some ''sk-test'')"

definition sky_document :: document where
  "sky_document = \<lparr>doc_id = 1, content = ''The sky is blue.'', meta_info = JObject [], created_at = 10\<rparr>"

definition grass_document :: document where
  "grass_document = \<lparr>doc_id = 2, content = ''Grass is green.'', meta_info = JObject [], created_at = 20\<rparr>"

definition paris_document :: document where
  "paris_document =
     \<lparr>doc_id = 3, content = ''Paris is the capital of France.'', meta_info = JObject [], created_at = 30\<rparr>"

text \<open>A store with one document and no embedding yet.\<close>

definition fresh_db :: database where
  "fresh_db = \<lparr>documents = [sky_document], embeddings = [], documents_id_seq = 2,
               embeddings_id_seq = 1, clock = 20, online = True\<rparr>"

text \<open>
  A store with three documents; the first was embedded twice, as happens after a
  redelivery.
\<close>

definition ranked_db :: database where
  "ranked_db =
     \<lparr>documents = [sky_document, grass_document, paris_document],
      embeddings =
        [\<lparr>emb_id = 1, document_id = 1, vec = [1, 0], emb_created_at = 11\<rparr>,
         \<lparr>emb_id = 2, document_id = 2, vec = [0, 1], emb_created_at = 21\<rparr>,
         \<lparr>emb_id = 3, document_id = 3, vec = [-1, 0], emb_created_at = 31\<rparr>,
         \<lparr>emb_id = 4, document_id = 1, vec = [1, 0], emb_created_at = 41\<rparr>],
      documents_id_seq = 4, embeddings_id_seq = 5, clock = 50, online = True\<rparr>"

text \<open>
  The cosine distance in real arithmetic, for the examples: one minus the inner product
  over the root of the product of the squared norms; vectors of different dimensions are
  an error.
\<close>

definition dot :: "vector \<Rightarrow> vector \<Rightarrow> real" where
  "dot a b = sum_list (map2 (*) a b)"

definition cosine_distance :: distance where
  "cosine_distance a b =
     (if length a \<noteq> length b then Inl DataError
      else Inr (1 - dot a b / sqrt (dot a a * dot b b)))"

definition embeddings_body :: json where
  "embeddings_body =
     JObject [(''object'', JString ''list''),
              (''data'', JArray [JObject [(''object'', JString ''embedding''), (''index'', JInt 0),
                                          (''embedding'', JArray [JFloat 1, JFloat 0])]])]"

definition chat_body :: json where
  "chat_body =
     JObject [(''choices'', JArray [JObject [(''index'', JInt 0),
        (''message'', JObject [(''role'', JString ''assistant''),
                               (''content'', JString ''The sky is blue.'')])]])]"

text \<open>An upstream service that answers both endpoints with status 200.\<close>

definition healthy_upstream :: upstream where
  "healthy_upstream req =
     (if url req = ''https://api.openai.com/v1/embeddings''
      then Inr \<lparr>status_code = 200, response_text = ''{\"object\": \"list\", ...}'',
                body_json = Inr embeddings_body\<rparr>
      else Inr \<lparr>status_code = 200, response_text = ''{\"choices\": ...}'',
                body_json = Inr chat_body\<rparr>)"

text \<open>An upstream service that answers 200 with a body that is not JSON.\<close>

definition garbled_upstream :: upstream where
  "garbled_upstream req =
     Inr \<lparr>status_code = 200, response_text = ''<html>Bad gateway</html>'',
          body_json = Inl JSONDecodeError\<rparr>"




definition well_formed_body :: string where
  "well_formed_body = ''{\"document_id\": 1, \"content\": \"The sky is blue.\", \"metadata\": {}}''"

definition missing_field_body :: string where
  "missing_field_body = ''{\"content\": \"The sky is blue.\"}''"

text \<open>
  \<open>json.loads\<close> on the two bodies above; any other body is taken here as one that does
  not decode.
\<close>

definition example_loads :: "string \<Rightarrow> json result" where
  "example_loads body =
     (if body = well_formed_body
      then Inr (JObject [(''document_id'', JInt 1), (''content'', JString ''The sky is blue.''),
                         (''metadata'', JObject [])])
      else if body = missing_field_body
      then Inr (JObject [(''content'', JString ''The sky is blue.'')])
      else Inl JSONDecodeError)"

text \<open>\<open>json.dumps\<close> on the message of the second document; other values are not used.\<close>

definition example_dumps :: "json \<Rightarrow> string" where
  "example_dumps v =
     (if v = JObject [(''document_id'', JInt 2), (''content'', JString ''Grass is green.''),
                      (''metadata'', JObject [])]
      then ''{\"document_id\": 2, \"content\": \"Grass is green.\", \"metadata\": {}}''
      else ''null'')"

definition broker_up :: broker where
  "broker_up = \<lparr>reachable = True, queue = []\<rparr>"

definition broker_down :: broker where
  "broker_down = \<lparr>reachable = False, queue = []\<rparr>"

definition grass_create :: document_create where
  "grass_create = \<lparr>new_content = ''Grass is green.'', new_meta_info = JObject []\<rparr>"

text \<open>The rows the examples expect from the search, and the query they send.\<close>

definition sky_row :: similar_document where
  "sky_row = \<lparr>sd_id = 1, sd_content = ''The sky is blue.'', sd_meta_info = JObject [],
               sd_created_at = 10, similarity = 1\<rparr>"

definition grass_row :: similar_document where
  "grass_row = \<lparr>sd_id = 2, sd_content = ''Grass is green.'', sd_meta_info = JObject [],
                 sd_created_at = 20, similarity = 0\<rparr>"

definition sky_query :: query_request where
  "sky_query = \<lparr>q_query = ''What color is the sky?'', q_top_k = Some 3, q_model = None\<rparr>"

section \<open>Basic facts\<close>

lemmas example_defs =
  ranked_db_def fresh_db_def sky_document_def grass_document_def paris_document_def
  sky_row_def grass_row_def example_settings_def default_settings_def healthy_upstream_def
  embeddings_body_def chat_body_def sky_query_def

lemmas bounds_defs = int4_def int8_def float4_overflow_def vector_max_dim_def


lemma getitem_error:
  "getitem v k = Inl e \<Longrightarrow> e = KeyError k \<or> e = TypeError"
  by (cases v) (auto split: option.splits)

section \<open>Properties of the generation gateway\<close>











text \<open>
  C9. The caller's \<open>model\<close> argument has no influence: for any two values of it, the
  request sent upstream is the same, it names the completion model \<open>gpt-3.5-turbo\<close>, the
  answer of the gateway is the same, and so is the response of the query endpoint that
  passes the argument on.
\<close>

theorem generate_rag_response_ignores_model:
  "chat_request st query context m1 = chat_request st query context m2 \<and>
   getitem (payload (chat_request st query context m1)) ''model'' = Inr (JString ''gpt-3.5-turbo'') \<and>
   generate_rag_response st post query context m1 = generate_rag_response st post query context m2 \<and>
   snd (query_documents cos_dist st post db (q\<lparr>q_model := m1\<rparr>)) =
     snd (query_documents cos_dist st post db (q\<lparr>q_model := m2\<rparr>))"
proof -
  have req: "chat_request st qu ctx m1 = chat_request st qu ctx m2" for qu ctx
    by (simp add: chat_request_def)
  have gen: "generate_rag_response st post qu ctx m1 = generate_rag_response st post qu ctx m2"
    for qu ctx
    by (simp add: generate_rag_response_def generate_try_def req)
  have named: "getitem (payload (chat_request st query context m1)) ''model''
      = Inr (JString ''gpt-3.5-turbo'')"
    by (simp add: chat_request_def openai_model_def)
  have endpoint: "snd (query_documents cos_dist st post db (q\<lparr>q_model := m1\<rparr>)) =
      snd (query_documents cos_dist st post db (q\<lparr>q_model := m2\<rparr>))"
    by (simp add: query_documents_def Let_def gen[of "q_query q"]
             split: sum.splits json.splits)
  from req gen named endpoint show ?thesis by simp
qed

section \<open>Properties of the embedding gateway\<close>

lemma get_embedding_has_len:
  assumes "snd (get_embedding st post text_in) = Inr v"
  shows "\<exists>n. len v = Inr n"
  using assms
  by (auto simp: get_embedding_def get_embedding_try_def Let_def
           split: if_splits sum.splits prod.splits)

text \<open>
  C8. Take any embedding call that succeeds upstream: the credential is present, the
  service answers 200 with a body whose \<open>data[0].embedding\<close> is a value \<open>v\<close> of
  length \<open>n\<close>. Then \<open>get_embedding\<close> returns exactly \<open>v\<close>, whatever the configured
  dimension is; the warning line is printed exactly when \<open>n\<close> differs from the configured
  dimension, and no error line is printed.
\<close>

theorem get_embedding_dimension_mismatch_not_fatal:
  assumes "\<not> no_api_key st"
    and "slice_to 50 text_in = Inr shown"
    and "post (embedding_request st text_in) = Inr r"
    and "status_code r = 200"
    and "bind (body_json r) read_embedding = Inr v"
    and "len v = Inr n"
  shows "snd (get_embedding st post text_in) = Inr v \<and>
         (Dimension_warning n (EMBEDDING_DIMENSION st) \<in> set (fst (get_embedding st post text_in))
            \<longleftrightarrow> int n \<noteq> EMBEDDING_DIMENSION st) \<and>
         (\<forall>e. Error_getting_embedding e \<notin> set (fst (get_embedding st post text_in)))"
  using assms
  by (auto simp: get_embedding_def get_embedding_try_def Let_def)

text \<open>
  A two-dimensional vector against the configured 1536 dimensions: the vector comes back
  and the warning is in the output.
\<close>

theorem get_embedding_dimension_mismatch_not_fatal_witness:
  "snd (get_embedding example_settings healthy_upstream (JString ''The sky is blue.''))
     = Inr (JArray [JFloat 1, JFloat 0]) \<and>
   Dimension_warning 2 1536
     \<in> set (fst (get_embedding example_settings healthy_upstream (JString ''The sky is blue.'')))"
proof -
  let ?t = "JString ''The sky is blue.''"
  let ?r = "\<lparr>status_code = 200, response_text = ''{\"object\": \"list\", ...}'',
             body_json = Inr embeddings_body\<rparr>"
  have key: "\<not> no_api_key example_settings"
    by (simp add: no_api_key_def example_settings_def default_settings_def)
  have shown: "slice_to 50 ?t = Inr ?t" by simp
  have post: "healthy_upstream (embedding_request example_settings ?t) = Inr ?r"
    by (simp add: healthy_upstream_def embedding_request_def)
  have status: "status_code ?r = 200" by simp
  have body: "bind (body_json ?r) read_embedding = Inr (JArray [JFloat 1, JFloat 0])"
    by (simp add: bind_def read_embedding_def embeddings_body_def)
  have n: "len (JArray [JFloat 1, JFloat 0]) = Inr 2" by simp
  have dim: "EMBEDDING_DIMENSION example_settings = 1536"
    by (simp add: example_settings_def default_settings_def)
  from get_embedding_dimension_mismatch_not_fatal
         [where post = healthy_upstream, OF key shown post status body n] dim
  show ?thesis by simp
qed

section \<open>Properties of the embedding worker\<close>

text \<open>What the callback does on each kind of message, for any decoder and any upstream.\<close>

lemma callback_drops_undecodable:
  assumes "loads body = Inl JSONDecodeError"
  shows "callback loads st post db ch delivery_tag body = (db, ch @ [Basic_nack delivery_tag False])"
  using assms by (simp add: callback_def parse_message_def bind_def on_exception_def)

lemma callback_requeues_missing_field:
  assumes "loads body = Inr message"
    and "getitem message ''document_id'' = Inl e \<or>
         (\<exists>d. getitem message ''document_id'' = Inr d \<and> getitem message ''content'' = Inl e)"
  shows "callback loads st post db ch delivery_tag body = (db, ch @ [Basic_nack delivery_tag True])"
  using assms
  by (auto simp: callback_def parse_message_def bind_def on_exception_def dest: getitem_error)

lemma parse_message_Inr:
  "parse_message loads body = Inr (d, c, m) \<longleftrightarrow>
     (\<exists>message. loads body = Inr message \<and> getitem message ''document_id'' = Inr d \<and>
        getitem message ''content'' = Inr c \<and> dict_get message ''metadata'' (JObject []) = Inr m)"
  by (auto simp: parse_message_def bind_def split: sum.splits)

lemma process_document_succeeds_iff:
  "snd (process_document st post db d c m) = Inr () \<longleftrightarrow>
     (\<exists>v. snd (get_embedding st post c) = Inr v \<and> snd (save_embedding db d v) = Inr ())"
  by (auto simp: process_document_def save_embedding_def split: sum.splits)

lemma callback_acks_iff_processed:
  assumes "parse_message loads body = Inr (d, c, m)"
  shows "snd (callback loads st post db ch delivery_tag body) = ch @ [Basic_ack delivery_tag]
           \<longleftrightarrow> snd (process_document st post db d c m) = Inr ()"
  using assms
  by (auto simp: callback_def on_exception_def split: prod.splits sum.splits)

lemma callback_requeues_other_failures:
  assumes "parse_message loads body = Inr (d, c, m)"
    and "snd (process_document st post db d c m) = Inl e" and "e \<noteq> JSONDecodeError"
  shows "snd (callback loads st post db ch delivery_tag body) = ch @ [Basic_nack delivery_tag True]"
  using assms
  by (auto simp: callback_def on_exception_def split: prod.splits sum.splits)

text \<open>
  The well-formed message with a healthy upstream and a reachable store: the embedding is
  written and the message acknowledged.
\<close>

lemma callback_acks_well_formed:
  "callback example_loads example_settings healthy_upstream fresh_db [] 7 well_formed_body
     = (fresh_db\<lparr>embeddings := [\<lparr>emb_id = 1, document_id = 1, vec = [1, 0], emb_created_at = 20\<rparr>],
                 embeddings_id_seq := 2\<rparr>,
        [Basic_ack 7])"
  by (simp add: callback_def parse_message_def example_loads_def
        well_formed_body_def bind_def on_exception_def process_document_def
        get_embedding_def get_embedding_try_def healthy_upstream_def example_settings_def
        default_settings_def no_api_key_def embedding_request_def read_embedding_def
        embeddings_body_def save_embedding_def insert_embedding_def fresh_db_def sky_document_def
        bounds_defs Let_def)

text \<open>
  C2. The specification has a body that is valid JSON but lacks a required field
  dropped without redelivery, like a body that is not JSON. In the code the missing key
  raises \<open>KeyError\<close>, which only the general clause catches: the body
  \<open>{"content": "The sky is blue."}\<close>, delivered with tag 7, is negatively acknowledged
  with the redelivery flag set, and the store is left as it was.
\<close>

theorem callback_requeues_message_without_document_id:
  "callback example_loads example_settings healthy_upstream fresh_db [] 7 missing_field_body
     = (fresh_db, [Basic_nack 7 True])"
  by (simp add: callback_def parse_message_def example_loads_def missing_field_body_def
        well_formed_body_def bind_def on_exception_def)

text \<open>
  C3. The specification has every failure of the embedding computation on a well-formed
  message negatively acknowledged with redelivery. In the code an upstream answer of
  status 200 whose body is not JSON makes \<open>response.json()\<close> raise \<open>JSONDecodeError\<close>,
  which travels through \<open>get_embedding\<close> and \<open>process_document\<close> to the first clause
  of the callback: the well-formed message for document 1, delivered with tag 7, is
  negatively acknowledged without redelivery, and no embedding is written.
\<close>

theorem callback_drops_message_on_garbled_upstream:
  "callback example_loads example_settings garbled_upstream fresh_db [] 7 well_formed_body
     = (fresh_db, [Basic_nack 7 False])"
  by (simp add: callback_def parse_message_def example_loads_def
        well_formed_body_def bind_def on_exception_def process_document_def
        get_embedding_def get_embedding_try_def garbled_upstream_def example_settings_def
        default_settings_def no_api_key_def)

section \<open>Properties of the similarity search\<close>


lemma select_rows_total:
  assumes "\<forall>(e, d) \<in> set js. \<exists>dst. cos_dist (vec e) q = Inr dst"
  shows "\<exists>rows. select_rows cos_dist q js = Inr rows"
  using assms by (induction js) (auto simp: bind_def)

lemma joined_member:
  "(e, d) \<in> set (joined db) \<longleftrightarrow>
     e \<in> set (embeddings db) \<and> d \<in> set (documents db) \<and> document_id e = doc_id d"
  by (auto simp: joined_def)



text \<open>
  The search returns when the store is reachable, the query is a vector, the count is in
  range and the operator is defined between the query and every stored vector.
\<close>

lemma search_similar_documents_returns:
  assumes "online db" and "as_vector query_embedding = Some q" and "0 \<le> k" and "int8 k"
    and "\<forall>e \<in> set (embeddings db). \<exists>dst. cos_dist (vec e) q = Inr dst"
  shows "\<exists>rows. search_similar_documents cos_dist db query_embedding (Some k) = Inr rows"
proof -
  from assms(5) have "\<forall>(e, d) \<in> set (joined db). \<exists>dst. cos_dist (vec e) q = Inr dst"
    by (auto simp: joined_member)
  from select_rows_total[where cos_dist = cos_dist, OF this] obtain rows where
    "select_rows cos_dist q (joined db) = Inr rows" ..
  with assms show ?thesis
    by (simp add: search_similar_documents_def bind_def limit_def)
qed


lemma search_ranked_3:
  "search_similar_documents cosine_distance ranked_db (JArray [JFloat 1, JFloat 0]) (Some 3)
     = Inr [sky_row, sky_row, grass_row]"
  by (simp add: search_similar_documents_def joined_def cosine_distance_def dot_def
      bind_def limit_def order_by_similarity_desc_def example_defs bounds_defs)



lemma numbers_in_range:
  assumes "\<forall>x \<in> set xs. \<exists>r. number x = Some r \<and> \<bar>r\<bar> < float4_overflow"
  shows "\<exists>v. numbers xs = Some v"
  using assms by (induction xs) auto

text \<open>
  C7 as the specification states it (every query vector, every \<open>k \<ge> 0\<close>) does not
  hold. On a reachable store without embeddings the search raises when the count does
  not fit the 64 bits of \<open>LIMIT\<close>, here \<open>2^63\<close>, and when a component of the query
  overflows the 32-bit floats of the \<open>::vector\<close> cast, here \<open>10^39\<close>.
\<close>

theorem search_empty_store_raises_out_of_range:
  "online fresh_db \<and> embeddings fresh_db = [] \<and>
   search_similar_documents cosine_distance fresh_db (JArray [JFloat 1, JFloat 0])
     (Some 9223372036854775808) = Inl DataError \<and>
   search_similar_documents cosine_distance fresh_db
     (JArray [JFloat 1000000000000000000000000000000000000000, JFloat 0]) (Some 3)
     = Inl DataError"
  by (simp add: search_similar_documents_def joined_def bind_def limit_def
        order_by_similarity_desc_def fresh_db_def bounds_defs)

text \<open>
  C7, amended. On a reachable store that holds no embedding, the search returns the
  empty list, whatever the distance operator does, for every count \<open>0 \<le> k < 2^63\<close> and
  every query vector of 1 to 16000 numbers, each of magnitude at most the largest 32-bit
  float \<open>2^128 - 2^104\<close>.
\<close>

theorem search_empty_store:
  assumes "online db" and "embeddings db = []"
    and "0 \<le> k" and "k < 9223372036854775808"
    and "xs \<noteq> []" and "length xs \<le> 16000"
    and "\<forall>x \<in> set xs. \<exists>r. number x = Some r \<and> \<bar>r\<bar> \<le> 2 ^ 128 - 2 ^ 104"
  shows "search_similar_documents cos_dist db (JArray xs) (Some k) = Inr []"
proof -
  have "\<forall>x \<in> set xs. \<exists>r. number x = Some r \<and> \<bar>r\<bar> < float4_overflow"
  proof
    fix x assume "x \<in> set xs"
    with assms(7) obtain r where "number x = Some r" and "\<bar>r\<bar> \<le> 2 ^ 128 - 2 ^ 104"
      by blast
    moreover have "(2::real) ^ 128 - 2 ^ 104 < 2 ^ 128 - 2 ^ 103" by simp
    ultimately show "\<exists>r. number x = Some r \<and> \<bar>r\<bar> < float4_overflow"
      by (auto simp: float4_overflow_def)
  qed
  from numbers_in_range[OF this] obtain v where "numbers xs = Some v" ..
  with assms(1-6) show ?thesis
    by (simp add: search_similar_documents_def joined_def bind_def limit_def
          order_by_similarity_desc_def int8_def vector_max_dim_def)
qed

theorem search_empty_store_witness:
  "online fresh_db \<and> embeddings fresh_db = [] \<and>
   search_similar_documents cosine_distance fresh_db (JArray [JFloat 1, JFloat 0]) (Some 3) = Inr [] \<and>
   search_similar_documents cosine_distance fresh_db (JArray [JFloat 1, JFloat 0]) (Some 0) = Inr []"
proof -
  have a: "online fresh_db" and b: "embeddings fresh_db = []"
    by (simp_all add: fresh_db_def)
  have c: "[JFloat 1, JFloat 0] \<noteq> []" and d: "length [JFloat 1, JFloat 0] \<le> 16000"
    and e: "\<forall>x \<in> set [JFloat 1, JFloat 0]. \<exists>r. number x = Some r \<and> \<bar>r\<bar> \<le> 2 ^ 128 - 2 ^ 104"
    by simp_all
  have k3: "(0::int) \<le> 3" "(3::int) < 9223372036854775808"
    and k0: "(0::int) \<le> 0" "(0::int) < 9223372036854775808"
    by simp_all
  from search_empty_store[OF a b k3 c d e, of cosine_distance]
       search_empty_store[OF a b k0 c d e, of cosine_distance] a b
  show ?thesis by simp
qed

section \<open>Properties of document submission\<close>

text \<open>
  The record store creates the row exactly when it is reachable, the text and the
  metadata hold no NUL character and the identity fits its column.
\<close>

lemma insert_document_succeeds_iff:
  "(\<exists>db' row. insert_document db doc = Inr (db', row)) \<longleftrightarrow>
     online db \<and> CHR 0x00 \<notin> set (new_content doc) \<and> \<not> has_nul (new_meta_info doc) \<and>
     int4 (documents_id_seq db)"
  by (simp add: insert_document_def)

text \<open>
  C1 as the specification states it (a queue problem never fails a submission) does not
  hold. The store is reachable and the broker is not: the row of the new document is
  committed, yet \<open>create_document\<close> raises the connection error of \<open>publish_document\<close>
  instead of returning the document, and the endpoint turns it into a 500.
\<close>

theorem create_document_raises_when_publish_fails:
  "snd (create_document example_dumps fresh_db broker_down grass_create) = Inl AMQPConnectionError \<and>
   documents (fst (fst (create_document example_dumps fresh_db broker_down grass_create)))
     = [sky_document, grass_document] \<and>
   snd (endpoint_create_document example_dumps fresh_db broker_down grass_create)
     = Inl (HTTPException 500 AMQPConnectionError)"
  by (simp add: create_document_def insert_document_def endpoint_create_document_def
        publish_document_def broker_down_def fresh_db_def grass_create_def grass_document_def
        new_row_def int4_def Let_def)

text \<open>
  C1, amended. Whenever the record store creates the row of the new document, the row is
  committed whatever the broker does. If the broker is reachable, \<open>create_document\<close> and
  the endpoint return the created document. If publishing raises an error,
  \<open>create_document\<close> raises that same error and the endpoint answers with a 500 that
  quotes it.
\<close>

theorem create_document_publish_outcome:
  assumes "insert_document db doc = Inr (db', row)"
  shows "row = new_row db doc \<and>
     fst (fst (create_document dumps db br doc)) = db' \<and>
     row \<in> set (documents (fst (fst (create_document dumps db br doc)))) \<and>
     (reachable br \<longrightarrow>
        snd (create_document dumps db br doc) = Inr row \<and>
        snd (endpoint_create_document dumps db br doc) = Inr row) \<and>
     (\<forall>e. snd (publish_document dumps br (doc_id row) (content row) (meta_info row)) = Inl e \<longrightarrow>
        snd (create_document dumps db br doc) = Inl e \<and>
        snd (endpoint_create_document dumps db br doc) = Inl (HTTPException 500 e))"
proof -
  from assms have row: "row = new_row db doc"
    and db': "db' = db\<lparr>documents := documents db @ [new_row db doc],
                      documents_id_seq := documents_id_seq db + 1\<rparr>"
    by (auto simp: insert_document_def split: if_splits)
  from assms row db' show ?thesis
    by (auto simp: create_document_def endpoint_create_document_def publish_document_def Let_def
             split: prod.splits sum.splits)
qed

theorem create_document_publish_outcome_witness:
  "insert_document fresh_db grass_create
     = Inr (fresh_db\<lparr>documents := [sky_document, grass_document], documents_id_seq := 3\<rparr>,
            grass_document) \<and>
   reachable broker_up \<and>
   snd (create_document example_dumps fresh_db broker_up grass_create) = Inr grass_document \<and>
   snd (publish_document example_dumps broker_down 2 ''Grass is green.'' (JObject []))
     = Inl AMQPConnectionError \<and>
   snd (endpoint_create_document example_dumps fresh_db broker_down grass_create)
     = Inl (HTTPException 500 AMQPConnectionError)"
proof -
  have ins: "insert_document fresh_db grass_create
     = Inr (fresh_db\<lparr>documents := [sky_document, grass_document], documents_id_seq := 3\<rparr>,
            grass_document)"
    by (simp add: insert_document_def new_row_def fresh_db_def grass_create_def
          grass_document_def int4_def)
  have up: "reachable broker_up" by (simp add: broker_up_def)
  have down: "snd (publish_document example_dumps broker_down 2 ''Grass is green.'' (JObject []))
     = Inl AMQPConnectionError"
    by (simp add: publish_document_def broker_down_def)
  from create_document_publish_outcome[OF ins, of example_dumps broker_up]
       create_document_publish_outcome[OF ins, of example_dumps broker_down]
       ins up down
  show ?thesis by (simp add: grass_document_def)
qed

text \<open>
  The identity sequence keeps the primary key of \<open>documents\<close>: identifiers stay distinct
  and below the sequence.
\<close>

lemma create_document_keeps_primary_key:
  assumes "distinct (map doc_id (documents db))"
    and "\<forall>d \<in> set (documents db). doc_id d < documents_id_seq db"
    and "fst (create_document dumps db br doc) = (db', br')"
  shows "distinct (map doc_id (documents db')) \<and>
         (\<forall>d \<in> set (documents db'). doc_id d < documents_id_seq db')"
proof (cases "insert_document db doc")
  case (Inl e)
  with assms show ?thesis by (simp add: create_document_def)
next
  case (Inr created)
  then have "created = (db\<lparr>documents := documents db @ [new_row db doc],
                      documents_id_seq := documents_id_seq db + 1\<rparr>, new_row db doc)"
    by (auto simp: insert_document_def split: if_splits)
  with Inr assms(3) have db': "documents db' = documents db @ [new_row db doc]"
      "documents_id_seq db' = documents_id_seq db + 1"
    by (auto simp: create_document_def split: prod.splits sum.splits)
  have fresh: "doc_id (new_row db doc) \<notin> doc_id ` set (documents db)"
    using assms(2) by (auto simp: new_row_def)
  from assms(1,2) fresh show ?thesis
    unfolding db' by (auto simp: new_row_def)
qed

section \<open>Properties of the query endpoint\<close>

lemma get_embedding_sky_query:
  "snd (get_embedding example_settings healthy_upstream (JString ''What color is the sky?''))
     = Inr (JArray [JFloat 1, JFloat 0])"
  by (simp add: get_embedding_def get_embedding_try_def no_api_key_def embedding_request_def
        read_embedding_def bind_def example_defs)

text \<open>
  C5. When the embedding of the question is obtained and the similarity search yields no
  row, the endpoint returns exactly the fixed answer with an empty list of sources, and
  \<open>generate_rag_response\<close> is not among the calls it made.
\<close>

theorem query_documents_no_results:
  assumes "snd (get_embedding st post (JString (q_query q))) = Inr query_embedding"
    and "search_similar_documents cos_dist db query_embedding (q_top_k q) = Inr []"
  shows "snd (query_documents cos_dist st post db q) =
           Inr \<lparr>answer = ''I don't have enough information to answer that question.'', sources = []\<rparr> \<and>
         (\<forall>a b c. Generate_rag_response a b c \<notin> set (fst (query_documents cos_dist st post db q)))"
proof -
  from get_embedding_has_len[OF assms(1)] obtain n where "len query_embedding = Inr n" ..
  with assms show ?thesis
    by (simp add: query_documents_def Let_def not_enough_information_def)
qed

theorem query_documents_no_results_witness:
  "snd (get_embedding example_settings healthy_upstream (JString (q_query sky_query)))
     = Inr (JArray [JFloat 1, JFloat 0]) \<and>
   search_similar_documents cosine_distance fresh_db (JArray [JFloat 1, JFloat 0]) (q_top_k sky_query)
     = Inr [] \<and>
   snd (query_documents cosine_distance example_settings healthy_upstream fresh_db sky_query)
     = Inr \<lparr>answer = ''I don't have enough information to answer that question.'', sources = []\<rparr> \<and>
   Generate_rag_response ''What color is the sky?'' [] None
     \<notin> set (fst (query_documents cosine_distance example_settings healthy_upstream fresh_db sky_query))"
proof -
  have e: "snd (get_embedding example_settings healthy_upstream (JString (q_query sky_query)))
     = Inr (JArray [JFloat 1, JFloat 0])"
    using get_embedding_sky_query by (simp add: sky_query_def)
  have s: "search_similar_documents cosine_distance fresh_db (JArray [JFloat 1, JFloat 0])
     (q_top_k sky_query) = Inr []"
    by (simp add: search_similar_documents_def joined_def bind_def limit_def
          order_by_similarity_desc_def fresh_db_def sky_query_def bounds_defs)
  from query_documents_no_results[OF e s] e s show ?thesis by simp
qed

text \<open>
  The query endpoint on the store whose first document was embedded twice: the search
  gives that document twice and the second document once; the sources hold each once.
\<close>

lemma query_ranked:
  "snd (query_documents cosine_distance example_settings healthy_upstream ranked_db sky_query)
     = Inr \<lparr>answer = ''The sky is blue.'', sources = [sky_document, grass_document]\<rparr>"
proof -
  have s: "search_similar_documents cosine_distance ranked_db (JArray [JFloat 1, JFloat 0])
     (q_top_k sky_query) = Inr [sky_row, sky_row, grass_row]"
    using search_ranked_3 by (simp add: sky_query_def)
  have g: "generate_rag_response example_settings healthy_upstream ''What color is the sky?''
      [''The sky is blue.'', ''The sky is blue.'', ''Grass is green.''] None
      = Inr (JString ''The sky is blue.'')"
    by (simp add: generate_rag_response_def generate_try_def no_api_key_def chat_request_def
          read_answer_def bind_def example_defs)
  have ids: "get_documents_by_ids ranked_db [1, 1, 2] = Inr [sky_document, grass_document]"
    by (simp add: get_documents_by_ids_def example_defs)
  have q: "q_query sky_query = ''What color is the sky?''" "q_model sky_query = None"
    by (simp_all add: sky_query_def)
  show ?thesis
    using get_embedding_sky_query s g ids
    by (simp add: query_documents_def Let_def q sky_row_def grass_row_def)
qed

text \<open>
  C10. When the identifiers of the \<open>documents\<close> table are distinct, as its primary key
  makes them, the sources of every response of the query endpoint hold each document
  identifier at most once, however often a document occurs among the similarity results.
\<close>

theorem query_documents_sources_distinct:
  assumes "distinct (map doc_id (documents db))"
    and "snd (query_documents cos_dist st post db q) = Inr resp"
  shows "distinct (map doc_id (sources resp))"
proof -
  from assms(2) have "\<exists>S. sources resp = [] \<or>
      sources resp = filter (\<lambda>d. doc_id d \<in> S) (documents db)"
    by (auto simp: query_documents_def Let_def get_documents_by_ids_def
             split: sum.splits if_splits json.splits)
  with assms(1) show ?thesis by (auto simp: distinct_map_filter)
qed

theorem query_documents_sources_distinct_witness:
  "distinct (map doc_id (documents ranked_db)) \<and>
   search_similar_documents cosine_distance ranked_db (JArray [JFloat 1, JFloat 0]) (Some 3)
     = Inr [sky_row, sky_row, grass_row] \<and>
   snd (query_documents cosine_distance example_settings healthy_upstream ranked_db sky_query)
     = Inr \<lparr>answer = ''The sky is blue.'', sources = [sky_document, grass_document]\<rparr> \<and>
   distinct (map doc_id [sky_document, grass_document])"
proof -
  have pk: "distinct (map doc_id (documents ranked_db))"
    by (simp add: example_defs)
  from query_documents_sources_distinct[OF pk query_ranked] pk query_ranked search_ranked_3
  show ?thesis by simp
qed

end
